theory Spec2Isabelle
  imports Main "HOL-Library.Word"
begin

section \<open>The audio conversion service of \<^verbatim>\<open>server.js\<close>\<close>

text \<open>
  The service has two request handlers, \<^verbatim>\<open>POST /convert\<close> (multipart upload, binary
  answer) and \<^verbatim>\<open>POST /convert-base64\<close> (JSON in, JSON out). Both write the input to a
  temp file, run \<^verbatim>\<open>ffmpeg\<close> synchronously, read the output file and remove both
  files in a \<^verbatim>\<open>finally\<close> block.

  The handlers are embedded as functions from a request and the state of the world
  (scratch directory, commands run so far) to a response and the new state. What the
  platform decides (the external tool, failing file operations, the base64 codec of
  \<^verbatim>\<open>Buffer\<close>) is a parameter of the handlers; the identifier that \<^verbatim>\<open>uuidv4()\<close>
  returns for the request is an argument. Console output is not modelled.

  The source file holds a second listing after the first one; its \<^verbatim>\<open>/convert\<close> names
  the input file without extension, builds the command without quotes and with the
  shell redirection \<^verbatim>\<open>2>&1\<close>, and reports a failed conversion without the
  \<^verbatim>\<open>input\<close> field. The definitions below follow the first listing (lines 1 to 185);
  \<^verbatim>\<open>/convert-base64\<close> is the same in both.

  Request parameters are optional strings: \<open>None\<close> is JavaScript's \<^verbatim>\<open>undefined\<close>.
\<close>

subsection \<open>Values\<close>

type_synonym buffer = "8 word list"
type_synonym path = string

text \<open>
  A JavaScript string is a sequence of UTF-16 code units. The \<^verbatim>\<open>audio\<close> text of a
  \<^verbatim>\<open>/convert-base64\<close> request is kept as such, since the base64 decoder of the
  platform reads code units. \<open>utf16\<close> gives the code units of a text of one-byte
  characters; \<open>low_byte\<close> is the cast of a code unit to eight bits.
\<close>

type_synonym code_unit = "16 word"

definition utf16 :: "string \<Rightarrow> code_unit list" where
  "utf16 s = map (\<lambda>c. of_nat (of_char c)) s"

definition low_byte :: "code_unit \<Rightarrow> char" where
  "low_byte u = char_of (unat u)"

text \<open>The file object that the upload middleware attaches to the request.\<close>

record upload =
  originalname :: "string option"
  mimetype :: "string option"
  buffer :: buffer
  upload_size :: nat

text \<open>\<^verbatim>\<open>req.query\<close> and \<^verbatim>\<open>req.file\<close> of a \<^verbatim>\<open>/convert\<close> request.\<close>

record convert_request =
  query_format :: "string option"
  query_bitrate :: "string option"
  req_file :: "upload option"

text \<open>\<^verbatim>\<open>req.body\<close> of a \<^verbatim>\<open>/convert-base64\<close> request.\<close>

record base64_request =
  body_audio :: "code_unit list option"
  body_format :: "string option"
  body_bitrate :: "string option"

datatype json = JStr string | JNum nat | JObj "(string \<times> json) list"

datatype payload = Json json | Raw buffer

record response =
  status :: nat
  content_type :: "string option"
  content_length :: "nat option"
  payload :: payload

text \<open>What \<^verbatim>\<open>execSync\<close> throws: the captured standard error, if any, and the message.\<close>

record exec_error =
  stderr :: "string option"
  message :: string

text \<open>
  The world a handler runs in: the files of the scratch directory and the commands
  handed to \<^verbatim>\<open>execSync\<close>, oldest first.
\<close>

record world =
  files :: "path \<rightharpoonup> buffer"
  execs :: "string list"

text \<open>
  The platform: what the external tool does to the files for a command line, which
  writes and deletions fail (with the message of the exception), and the base64 codec
  of \<^verbatim>\<open>Buffer\<close>.
\<close>

record platform =
  run_tool :: "string \<Rightarrow> (path \<rightharpoonup> buffer) \<Rightarrow> (exec_error + string) \<times> (path \<rightharpoonup> buffer)"
  write_error :: "path \<Rightarrow> string option"
  unlink_error :: "path \<Rightarrow> string option"
  from_base64 :: "code_unit list \<Rightarrow> buffer"
  to_base64 :: "buffer \<Rightarrow> string"

subsection \<open>JavaScript defaults\<close>

text \<open>\<^verbatim>\<open>x || d\<close> on an optional string: \<^verbatim>\<open>undefined\<close> and the empty string are falsy.\<close>

definition or_default :: "string option \<Rightarrow> string \<Rightarrow> string" where
  "or_default x d = (case x of None \<Rightarrow> d | Some v \<Rightarrow> if v = [] then d else v)"

text \<open>A destructuring default \<^verbatim>\<open>{ x = d }\<close> replaces \<^verbatim>\<open>undefined\<close> only.\<close>

definition destructure_default :: "string option \<Rightarrow> string \<Rightarrow> string" where
  "destructure_default x d = (case x of None \<Rightarrow> d | Some v \<Rightarrow> v)"

subsection \<open>Format validation and input extension\<close>

definition supported_formats :: "string list" where
  "supported_formats = [''ogg'', ''mp3'', ''opus'', ''m4a'', ''aac'']"

text \<open>\<^verbatim>\<open>\w\<close> of a JavaScript regular expression without flags.\<close>

definition word_char :: "char \<Rightarrow> bool" where
  "word_char c = (c \<in> set ''abcdefghijklmnopqrstuvwxyzABCDEFGHIJKLMNOPQRSTUVWXYZ0123456789_'')"

text \<open>
  \<^verbatim>\<open>name.match(/\.(\w+)$/)\<close>: the start positions are tried from the left; at a dot
  the rest of the string must be one or more word characters up to the end. The result
  is the captured group of the match.
\<close>

fun match_ext :: "string \<Rightarrow> string option" where
  "match_ext [] = None"
| "match_ext (c # cs) =
     (if c = CHR ''.'' \<and> cs \<noteq> [] \<and> list_all word_char cs then Some cs else match_ext cs)"

definition mimeToExt :: "(string \<times> string) list" where
  "mimeToExt =
     [(''audio/mpeg'', ''mp3''),
      (''audio/mp3'', ''mp3''),
      (''audio/wav'', ''wav''),
      (''audio/wave'', ''wav''),
      (''audio/x-wav'', ''wav''),
      (''audio/ogg'', ''ogg''),
      (''audio/flac'', ''flac''),
      (''audio/aac'', ''aac''),
      (''audio/mp4'', ''m4a''),
      (''audio/x-m4a'', ''m4a''),
      (''audio/webm'', ''webm''),
      (''video/webm'', ''webm'')]"

text \<open>
  Lines 31 to 52. The table is read by its own keys (a declared type has the form
  \<^verbatim>\<open>type/subtype\<close>, which no inherited property name of a JavaScript object has).
\<close>

definition resolve_inputExt :: "string option \<Rightarrow> string option \<Rightarrow> string" where
  "resolve_inputExt name mime =
     (let inputExt =
        (case name of
           None \<Rightarrow> []
         | Some n \<Rightarrow>
             if n = [] then []
             else (case match_ext n of Some e \<Rightarrow> e | None \<Rightarrow> []))
      in if inputExt \<noteq> [] then inputExt
         else (case mime of
                 None \<Rightarrow> inputExt
               | Some m \<Rightarrow>
                   if m = [] then inputExt
                   else (case map_of mimeToExt m of Some e \<Rightarrow> e | None \<Rightarrow> [])))"

subsection \<open>Temp file names\<close>

definition convert_inputPath :: "string \<Rightarrow> string \<Rightarrow> path" where
  "convert_inputPath tempId inputExt =
     ''/tmp/'' @ tempId @ ''_input'' @ (if inputExt \<noteq> [] then ''.'' @ inputExt else [])"

definition convert_outputPath :: "string \<Rightarrow> string \<Rightarrow> path" where
  "convert_outputPath tempId format = ''/tmp/'' @ tempId @ ''_output.'' @ format"

definition base64_inputPath :: "string \<Rightarrow> path" where
  "base64_inputPath tempId = ''/tmp/'' @ tempId @ ''_input''"

definition base64_outputPath :: "string \<Rightarrow> string \<Rightarrow> path" where
  "base64_outputPath tempId format = ''/tmp/'' @ tempId @ ''_output.'' @ format"

text \<open>
  The textual form of the identifiers that \<^verbatim>\<open>uuidv4()\<close> returns: 36 characters,
  hyphens at positions 8, 13, 18 and 23, lower-case hexadecimal digits elsewhere.
\<close>

definition hex_digit :: "char \<Rightarrow> bool" where
  "hex_digit c = (c \<in> set ''0123456789abcdef'')"

definition is_uuid :: "string \<Rightarrow> bool" where
  "is_uuid s =
     (length s = 36 \<and>
      list_all (\<lambda>i. if i \<in> set [8, 13, 18, 23] then s ! i = CHR ''-'' else hex_digit (s ! i))
        [0..<36])"

subsection \<open>Codec arguments and command lines\<close>

text \<open>The \<^verbatim>\<open>switch\<close> of \<^verbatim>\<open>/convert\<close>, lines 60 to 77.\<close>

definition convert_codecArgs :: "string \<Rightarrow> string \<Rightarrow> string" where
  "convert_codecArgs format bitrate =
     (if format = ''mp3'' then ''-c:a libmp3lame -b:a '' @ bitrate
      else if format = ''ogg'' then ''-c:a libvorbis -b:a '' @ bitrate
      else if format = ''opus'' then ''-c:a libopus -b:a '' @ bitrate
      else if format = ''m4a'' \<or> format = ''aac'' then ''-c:a aac -b:a '' @ bitrate
      else ''-c:a libvorbis -b:a '' @ bitrate)"

text \<open>The \<^verbatim>\<open>switch\<close> of \<^verbatim>\<open>/convert-base64\<close>, lines 145 to 155.\<close>

definition base64_codecArgs :: "string \<Rightarrow> string \<Rightarrow> string" where
  "base64_codecArgs format bitrate =
     (if format = ''mp3'' then ''-c:a libmp3lame -b:a '' @ bitrate
      else if format = ''ogg'' then ''-c:a libvorbis -b:a '' @ bitrate
      else ''-c:a libvorbis -b:a '' @ bitrate)"

definition dquote :: string where
  "dquote = [CHR 0x22]"

text \<open>Line 79: the paths are wrapped in double quotes.\<close>

definition convert_cmd :: "path \<Rightarrow> string \<Rightarrow> path \<Rightarrow> string" where
  "convert_cmd inputPath codecArgs outputPath =
     ''ffmpeg -i '' @ dquote @ inputPath @ dquote @ '' '' @ codecArgs
       @ '' -y '' @ dquote @ outputPath @ dquote"

text \<open>Line 157: no quotes.\<close>

definition base64_cmd :: "path \<Rightarrow> string \<Rightarrow> path \<Rightarrow> string" where
  "base64_cmd inputPath codecArgs outputPath =
     ''ffmpeg -i '' @ inputPath @ '' '' @ codecArgs @ '' -y '' @ outputPath"

definition contentTypes :: "(string \<times> string) list" where
  "contentTypes =
     [(''mp3'', ''audio/mpeg''),
      (''ogg'', ''audio/ogg''),
      (''opus'', ''audio/opus''),
      (''m4a'', ''audio/mp4''),
      (''aac'', ''audio/aac'')]"

subsection \<open>File operations\<close>

definition existsSync :: "path \<Rightarrow> world \<Rightarrow> bool" where
  "existsSync p w = (files w p \<noteq> None)"

text \<open>A failing write throws and leaves the files as they were.\<close>

definition writeFileSync :: "platform \<Rightarrow> path \<Rightarrow> buffer \<Rightarrow> world \<Rightarrow> string + world" where
  "writeFileSync pf p b w =
     (case write_error pf p of
        Some msg \<Rightarrow> Inl msg
      | None \<Rightarrow> Inr (w\<lparr>files := (files w)(p \<mapsto> b)\<rparr>))"

definition enoent :: "string \<Rightarrow> path \<Rightarrow> string" where
  "enoent syscall p =
     ''ENOENT: no such file or directory, '' @ syscall @ '' '' @ [CHR 0x27] @ p @ [CHR 0x27]"

definition readFileSync :: "path \<Rightarrow> world \<Rightarrow> string + buffer" where
  "readFileSync p w =
     (case files w p of None \<Rightarrow> Inl (enoent ''open'' p) | Some b \<Rightarrow> Inr b)"

definition unlinkSync :: "platform \<Rightarrow> path \<Rightarrow> world \<Rightarrow> string + world" where
  "unlinkSync pf p w =
     (case files w p of
        None \<Rightarrow> Inl (enoent ''unlink'' p)
      | Some b \<Rightarrow>
          (case unlink_error pf p of
             Some msg \<Rightarrow> Inl msg
           | None \<Rightarrow> Inr (w\<lparr>files := (files w)(p := None)\<rparr>)))"

text \<open>\<^verbatim>\<open>execSync(cmd)\<close>: the command is recorded and the tool changes the files.\<close>

definition execSync :: "platform \<Rightarrow> string \<Rightarrow> world \<Rightarrow> (exec_error + string) \<times> world" where
  "execSync pf cmd w =
     (let (r, fs) = run_tool pf cmd (files w)
      in (r, w\<lparr>files := fs, execs := execs w @ [cmd]\<rparr>))"

text \<open>
  The \<^verbatim>\<open>finally\<close> block of both handlers (lines 120 to 127 and 171 to 176): the
  two deletions are inside one \<^verbatim>\<open>try\<close>, so when the first one throws the second one
  is not attempted; the exception is caught there.
\<close>

definition cleanup :: "platform \<Rightarrow> path \<Rightarrow> path \<Rightarrow> world \<Rightarrow> world" where
  "cleanup pf inputPath outputPath w =
     (case (if existsSync inputPath w then unlinkSync pf inputPath w else Inr w) of
        Inl cleanupError \<Rightarrow> w
      | Inr w1 \<Rightarrow>
          (case (if existsSync outputPath w1 then unlinkSync pf outputPath w1 else Inr w1) of
             Inl cleanupError \<Rightarrow> w1
           | Inr w2 \<Rightarrow> w2))"

subsection \<open>Responses\<close>

text \<open>
  \<^verbatim>\<open>res.status(n).json(j)\<close>; the content type and length of a JSON answer are the
  framework's and stay unset here.
\<close>

definition res_json :: "nat \<Rightarrow> json \<Rightarrow> response" where
  "res_json n j = \<lparr>status = n, content_type = None, content_length = None, payload = Json j\<rparr>"

text \<open>Lines 113 to 115.\<close>

definition res_send :: "string \<Rightarrow> buffer \<Rightarrow> response" where
  "res_send ct b =
     \<lparr>status = 200, content_type = Some ct, content_length = Some (length b), payload = Raw b\<rparr>"

definition invalid_format :: response where
  "invalid_format =
     res_json 400 (JObj [(''error'', JStr ''Invalid format. Supported: ogg, mp3, opus, m4a, aac'')])"

definition no_audio_file :: response where
  "no_audio_file = res_json 400 (JObj [(''error'', JStr ''No audio file provided'')])"

definition no_audio_data :: response where
  "no_audio_data = res_json 400 (JObj [(''error'', JStr ''No audio data provided'')])"

text \<open>A property whose value is \<^verbatim>\<open>undefined\<close> is left out of the JSON text.\<close>

definition json_field :: "string \<Rightarrow> string option \<Rightarrow> (string \<times> json) list" where
  "json_field k v = (case v of None \<Rightarrow> [] | Some x \<Rightarrow> [(k, JStr x)])"

text \<open>Lines 92 to 100.\<close>

definition conversion_failed :: "exec_error \<Rightarrow> upload \<Rightarrow> response" where
  "conversion_failed ffmpegError f =
     res_json 500
       (JObj [(''error'', JStr ''Conversion failed''),
              (''details'', JStr (or_default (stderr ffmpegError) (message ffmpegError))),
              (''input'',
               JObj (json_field ''originalName'' (originalname f)
                     @ json_field ''mimetype'' (mimetype f)
                     @ [(''size'', JNum (upload_size f))]))])"

text \<open>Line 119.\<close>

definition server_error :: "string \<Rightarrow> response" where
  "server_error msg =
     res_json 500 (JObj [(''error'', JStr ''Server error''), (''details'', JStr msg)])"

subsection \<open>The handler of \<^verbatim>\<open>/convert\<close>\<close>

text \<open>The \<^verbatim>\<open>try\<close> block with its two \<^verbatim>\<open>catch\<close> clauses, lines 57 to 119.\<close>

definition convert_try ::
  "platform \<Rightarrow> upload \<Rightarrow> string \<Rightarrow> string \<Rightarrow> path \<Rightarrow> path \<Rightarrow> world \<Rightarrow> response \<times> world" where
  "convert_try pf f format bitrate inputPath outputPath w =
     (case writeFileSync pf inputPath (buffer f) w of
        Inl msg \<Rightarrow> (server_error msg, w)
      | Inr w1 \<Rightarrow>
          (let codecArgs = convert_codecArgs format bitrate;
               cmd = convert_cmd inputPath codecArgs outputPath;
               (r, w2) = execSync pf cmd w1
           in case r of
                Inl ffmpegError \<Rightarrow> (conversion_failed ffmpegError f, w2)
              | Inr output \<Rightarrow>
                  (case readFileSync outputPath w2 of
                     Inl msg \<Rightarrow> (server_error msg, w2)
                   | Inr convertedBuffer \<Rightarrow>
                       (res_send
                          (case map_of contentTypes format of
                             Some ct \<Rightarrow> ct
                           | None \<Rightarrow> ''audio/ogg'')
                          convertedBuffer, w2))))"

text \<open>
  Lines 17 to 128. \<open>tempId\<close> is the value of \<^verbatim>\<open>uuidv4()\<close> at line 29; it is not
  used when the request is rejected before that line.
\<close>

definition convert :: "platform \<Rightarrow> string \<Rightarrow> convert_request \<Rightarrow> world \<Rightarrow> response \<times> world" where
  "convert pf tempId req w =
     (let format = or_default (query_format req) ''ogg'';
          bitrate = or_default (query_bitrate req) ''128k''
      in if format \<notin> set supported_formats then (invalid_format, w)
         else (case req_file req of
                 None \<Rightarrow> (no_audio_file, w)
               | Some f \<Rightarrow>
                   (let inputExt = resolve_inputExt (originalname f) (mimetype f);
                        inputPath = convert_inputPath tempId inputExt;
                        outputPath = convert_outputPath tempId format;
                        (res, w1) = convert_try pf f format bitrate inputPath outputPath w
                    in (res, cleanup pf inputPath outputPath w1))))"

subsection \<open>The handler of \<^verbatim>\<open>/convert-base64\<close>\<close>

text \<open>The \<^verbatim>\<open>try\<close> block and its \<^verbatim>\<open>catch\<close>, lines 141 to 170.\<close>

definition base64_try ::
  "platform \<Rightarrow> code_unit list \<Rightarrow> string \<Rightarrow> string \<Rightarrow> path \<Rightarrow> path \<Rightarrow> world \<Rightarrow> response \<times> world" where
  "base64_try pf audio format bitrate inputPath outputPath w =
     (let inputBuffer = from_base64 pf audio
      in case writeFileSync pf inputPath inputBuffer w of
           Inl msg \<Rightarrow> (res_json 500 (JObj [(''error'', JStr msg)]), w)
         | Inr w1 \<Rightarrow>
             (let codecArgs = base64_codecArgs format bitrate;
                  (r, w2) = execSync pf (base64_cmd inputPath codecArgs outputPath) w1
              in case r of
                   Inl error \<Rightarrow> (res_json 500 (JObj [(''error'', JStr (message error))]), w2)
                 | Inr output \<Rightarrow>
                     (case readFileSync outputPath w2 of
                        Inl msg \<Rightarrow> (res_json 500 (JObj [(''error'', JStr msg)]), w2)
                      | Inr convertedBuffer \<Rightarrow>
                          (res_json 200
                             (JObj [(''audio'', JStr (to_base64 pf convertedBuffer)),
                                    (''format'', JStr format),
                                    (''size'', JNum (length convertedBuffer))]), w2))))"

text \<open>Lines 130 to 177; \<^verbatim>\<open>!audio\<close> holds for a missing and for an empty string.\<close>

definition convert_base64 ::
  "platform \<Rightarrow> string \<Rightarrow> base64_request \<Rightarrow> world \<Rightarrow> response \<times> world" where
  "convert_base64 pf tempId req w =
     (let format = destructure_default (body_format req) ''ogg'';
          bitrate = destructure_default (body_bitrate req) ''128k''
      in case body_audio req of
           None \<Rightarrow> (no_audio_data, w)
         | Some audio \<Rightarrow>
             if audio = [] then (no_audio_data, w)
             else (let inputPath = base64_inputPath tempId;
                       outputPath = base64_outputPath tempId format;
                       (res, w1) = base64_try pf audio format bitrate inputPath outputPath w
                   in (res, cleanup pf inputPath outputPath w1)))"

subsection \<open>A concrete platform\<close>

text \<open>
  The base64 codec of the platform's \<^verbatim>\<open>Buffer\<close>. \<^verbatim>\<open>toString('base64')\<close> writes the
  standard alphabet with padding. \<^verbatim>\<open>Buffer.from(s, 'base64')\<close> is lenient: it reads
  each code unit of \<^verbatim>\<open>s\<close> by its low byte, skips the bytes outside the standard and
  URL-safe alphabets, and ends at the first padding byte; the sextets read are grouped
  by four, and a last group of two or three gives one or two bytes. Sextets are natural
  numbers below 64.
\<close>

definition base64_alphabet :: string where
  "base64_alphabet = ''ABCDEFGHIJKLMNOPQRSTUVWXYZabcdefghijklmnopqrstuvwxyz0123456789+/''"

definition sextet_char :: "nat \<Rightarrow> char" where
  "sextet_char n = base64_alphabet ! n"

fun base64_encode :: "buffer \<Rightarrow> string" where
  "base64_encode (a # b # c # rest) =
     [sextet_char (unat a div 4),
      sextet_char (unat a mod 4 * 16 + unat b div 16),
      sextet_char (unat b mod 16 * 4 + unat c div 64),
      sextet_char (unat c mod 64)] @ base64_encode rest"
| "base64_encode [a, b] =
     [sextet_char (unat a div 4),
      sextet_char (unat a mod 4 * 16 + unat b div 16),
      sextet_char (unat b mod 16 * 4),
      CHR ''='']"
| "base64_encode [a] =
     [sextet_char (unat a div 4), sextet_char (unat a mod 4 * 16), CHR ''='', CHR ''='']"
| "base64_encode [] = []"

fun index_of :: "'a \<Rightarrow> 'a list \<Rightarrow> nat option" where
  "index_of x [] = None"
| "index_of x (y # ys) = (if x = y then Some 0 else map_option Suc (index_of x ys))"

definition unbase64 :: "char \<Rightarrow> nat option" where
  "unbase64 c =
     (if c = CHR ''-'' then Some 62
      else if c = CHR ''_'' then Some 63
      else index_of c base64_alphabet)"

fun sextets :: "code_unit list \<Rightarrow> nat list" where
  "sextets [] = []"
| "sextets (u # us) =
     (if low_byte u = CHR ''='' then []
      else (case unbase64 (low_byte u) of
              Some v \<Rightarrow> v # sextets us
            | None \<Rightarrow> sextets us))"

fun octets :: "nat list \<Rightarrow> buffer" where
  "octets (s1 # s2 # s3 # s4 # rest) =
     [of_nat (s1 * 4 + s2 div 16),
      of_nat (s2 mod 16 * 16 + s3 div 4),
      of_nat (s3 mod 4 * 64 + s4)] @ octets rest"
| "octets [s1, s2, s3] = [of_nat (s1 * 4 + s2 div 16), of_nat (s2 mod 16 * 16 + s3 div 4)]"
| "octets [s1, s2] = [of_nat (s1 * 4 + s2 div 16)]"
| "octets [s1] = []"
| "octets [] = []"

definition base64_decode :: "code_unit list \<Rightarrow> buffer" where
  "base64_decode s = octets (sextets s)"

text \<open>
  Two stand-ins for the external tool: one that exits with an error and leaves the
  files alone, and one that writes fixed bytes to a fixed path and exits normally.
\<close>

definition failing_tool ::
  "string \<Rightarrow> (path \<rightharpoonup> buffer) \<Rightarrow> (exec_error + string) \<times> (path \<rightharpoonup> buffer)" where
  "failing_tool cmd fs =
     (Inl \<lparr>stderr = Some ''Invalid data found when processing input'',
           message = ''Command failed: '' @ cmd\<rparr>, fs)"

definition writing_tool ::
  "path \<Rightarrow> buffer \<Rightarrow> string \<Rightarrow> (path \<rightharpoonup> buffer) \<Rightarrow> (exec_error + string) \<times> (path \<rightharpoonup> buffer)" where
  "writing_tool out b cmd fs = (Inr [], fs(out \<mapsto> b))"

text \<open>
  A stand-in for the external tool that succeeds. It is a deterministic function of
  the bytes of the input file and of the encoder named in the command: the names of
  the two files, and the double quotes around them (which the shell removes), make no
  difference. It writes a byte that stands for the encoder, followed by the input
  bytes, to the output path. A command of another shape, an unknown encoder or a
  missing input file is an error.
\<close>

fun split_spaces :: "string \<Rightarrow> string list" where
  "split_spaces [] = [[]]"
| "split_spaces (c # cs) =
     (if c = CHR '' '' then [] # split_spaces cs
      else (case split_spaces cs of w # ws \<Rightarrow> (c # w) # ws | [] \<Rightarrow> [[c]]))"

text \<open>The words of a command line: runs of characters other than the space.\<close>

definition shell_words :: "string \<Rightarrow> string list" where
  "shell_words cmd = filter (\<lambda>w. w \<noteq> []) (split_spaces cmd)"

definition unquote :: "string \<Rightarrow> string" where
  "unquote s = filter (\<lambda>c. c \<noteq> CHR 0x22) s"

definition encoder_tag :: "string \<Rightarrow> 8 word option" where
  "encoder_tag enc =
     (if enc = ''libmp3lame'' then Some 1
      else if enc = ''libvorbis'' then Some 2
      else if enc = ''libopus'' then Some 3
      else if enc = ''aac'' then Some 4
      else None)"

fun tool_args :: "string list \<Rightarrow> (path \<times> string \<times> path) option" where
  "tool_args [ff, i, inp, ca, enc, ba, br, y, out] =
     (if ff = ''ffmpeg'' \<and> i = ''-i'' \<and> ca = ''-c:a'' \<and> ba = ''-b:a'' \<and> y = ''-y''
      then Some (unquote inp, enc, unquote out)
      else None)"
| "tool_args args = None"

definition tagging_tool ::
  "string \<Rightarrow> (path \<rightharpoonup> buffer) \<Rightarrow> (exec_error + string) \<times> (path \<rightharpoonup> buffer)" where
  "tagging_tool cmd fs =
     (case tool_args (shell_words cmd) of
        None \<Rightarrow> failing_tool cmd fs
      | Some (inp, enc, out) \<Rightarrow>
          (case fs inp of
             None \<Rightarrow> failing_tool cmd fs
           | Some b \<Rightarrow>
               (case encoder_tag enc of
                  None \<Rightarrow> failing_tool cmd fs
                | Some t \<Rightarrow> (Inr [], fs(out \<mapsto> t # b)))))"

text \<open>A platform on which no write and no deletion fails.\<close>

definition sound_platform ::
  "(string \<Rightarrow> (path \<rightharpoonup> buffer) \<Rightarrow> (exec_error + string) \<times> (path \<rightharpoonup> buffer)) \<Rightarrow> platform" where
  "sound_platform tool =
     \<lparr>run_tool = tool, write_error = (\<lambda>p. None), unlink_error = (\<lambda>p. None),
      from_base64 = base64_decode, to_base64 = base64_encode\<rparr>"

definition empty_world :: world where
  "empty_world = \<lparr>files = Map.empty, execs = []\<rparr>"

definition id1 :: string where
  "id1 = ''123e4567-e89b-42d3-a456-426614174000''"

definition id2 :: string where
  "id2 = ''9b2f6c1e-7d4a-4f0b-8c3e-5a1d2e3f4a5b''"

text \<open>Sample requests: the same three bytes, as an upload and as base64 text.\<close>

definition sample_upload :: upload where
  "sample_upload =
     \<lparr>originalname = Some ''take.1.wav'', mimetype = Some ''audio/wav'',
      buffer = [0x41, 0x42, 0x43], upload_size = 3\<rparr>"

definition sample_convert_request :: "string \<Rightarrow> convert_request" where
  "sample_convert_request fmt =
     \<lparr>query_format = Some fmt, query_bitrate = Some ''96k'', req_file = Some sample_upload\<rparr>"

definition sample_base64_request :: "string \<Rightarrow> string \<Rightarrow> base64_request" where
  "sample_base64_request audio fmt =
     \<lparr>body_audio = Some (utf16 audio), body_format = Some fmt, body_bitrate = Some ''96k''\<rparr>"

text \<open>
  A small audio file (RIFF/WAVE, 16-bit stereo PCM at 44100 Hz, four frames of silence)
  and its base64 text, as an upload and as the \<^verbatim>\<open>audio\<close> field; no bitrate is given,
  so both handlers use \<^verbatim>\<open>128k\<close>.
\<close>

definition wav_bytes :: buffer where
  "wav_bytes =
     [0x52, 0x49, 0x46, 0x46, 0x34, 0x00, 0x00, 0x00, 0x57, 0x41, 0x56, 0x45,
      0x66, 0x6D, 0x74, 0x20, 0x10, 0x00, 0x00, 0x00, 0x01, 0x00, 0x02, 0x00,
      0x44, 0xAC, 0x00, 0x00, 0x10, 0xB1, 0x02, 0x00, 0x04, 0x00, 0x10, 0x00,
      0x64, 0x61, 0x74, 0x61, 0x10, 0x00, 0x00, 0x00, 0x00, 0x00, 0x00, 0x00,
      0x00, 0x00, 0x00, 0x00, 0x00, 0x00, 0x00, 0x00, 0x00, 0x00, 0x00, 0x00]"

definition wav_base64 :: string where
  "wav_base64 =
     ''UklGRjQAAABXQVZFZm10IBAAAAABAAIARKwAABCx''
     @ ''AgAEABAAZGF0YRAAAAAAAAAAAAAAAAAAAAAAAAAA''"

definition wav_upload :: upload where
  "wav_upload =
     \<lparr>originalname = Some ''tone.wav'', mimetype = Some ''audio/wav'',
      buffer = wav_bytes, upload_size = 60\<rparr>"

definition wav_convert_request :: "string \<Rightarrow> convert_request" where
  "wav_convert_request fmt =
     \<lparr>query_format = Some fmt, query_bitrate = None, req_file = Some wav_upload\<rparr>"

definition wav_base64_request :: "string \<Rightarrow> base64_request" where
  "wav_base64_request fmt =
     \<lparr>body_audio = Some (utf16 wav_base64), body_format = Some fmt, body_bitrate = None\<rparr>"


section \<open>Properties\<close>

subsection \<open>Auxiliary facts\<close>

lemma utf16_simps [simp]:
  "utf16 [] = []"
  "utf16 (c # cs) = of_nat (of_char c) # utf16 cs"
  "utf16 (xs @ ys) = utf16 xs @ utf16 ys"
  by (simp_all add: utf16_def)

lemma low_byte_utf16 [simp]: "low_byte (of_nat (of_char c)) = c"
proof -
  have "of_char c < (65536 :: nat)"
    by (rule less_trans [OF nat_of_char_less_256]) simp
  then have "unat (of_nat (of_char c) :: code_unit) = of_char c"
    by (simp add: unat_of_nat)
  then show ?thesis
    by (simp add: low_byte_def)
qed

lemma or_default_Some: "v \<noteq> [] \<Longrightarrow> or_default (Some v) d = v"
  by (simp add: or_default_def)

lemma ogg_supported: "''ogg'' \<in> set supported_formats"
  by (simp add: supported_formats_def)

lemma execs_cleanup: "execs (cleanup pf i out w) = execs w"
  by (simp add: cleanup_def unlinkSync_def existsSync_def split: option.splits)



lemma convert_invalid_format:
  "or_default (query_format req) ''ogg'' \<notin> set supported_formats \<Longrightarrow>
     convert pf tempId req w = (invalid_format, w)"
  by (simp add: convert_def Let_def)

lemma convert_no_file:
  "or_default (query_format req) ''ogg'' \<in> set supported_formats \<Longrightarrow> req_file req = None \<Longrightarrow>
     convert pf tempId req w = (no_audio_file, w)"
  by (simp add: convert_def Let_def)

lemma convert_base64_no_audio:
  "body_audio req = None \<or> body_audio req = Some [] \<Longrightarrow>
     convert_base64 pf tempId req w = (no_audio_data, w)"
  by (auto simp: convert_base64_def Let_def)

subsection \<open>Order of the checks of \<^verbatim>\<open>/convert\<close>\<close>

text \<open>
  Claim C9. In \<^verbatim>\<open>/convert\<close> the format is validated before the presence of the file
  is checked: a request whose format parameter is given, not empty and outside the
  supported set, and which has no file attached, is answered with status 400 and the
  invalid-format message, not with the missing-file message; the world is left as it
  was. (An empty format parameter is replaced by the default \<^verbatim>\<open>ogg\<close> at line 18.)
\<close>

theorem convert_format_checked_first:
  assumes "query_format req = Some fmt" and "fmt \<noteq> []" and "fmt \<notin> set supported_formats"
    and "req_file req = None"
  shows "convert pf tempId req w = (invalid_format, w) \<and>
         status invalid_format = 400 \<and>
         payload invalid_format =
           Json (JObj [(''error'', JStr ''Invalid format. Supported: ogg, mp3, opus, m4a, aac'')]) \<and>
         invalid_format \<noteq> no_audio_file"
proof -
  from assms have "or_default (query_format req) ''ogg'' \<notin> set supported_formats"
    by (simp add: or_default_Some)
  then have "convert pf tempId req w = (invalid_format, w)"
    by (rule convert_invalid_format)
  then show ?thesis
    by (simp add: invalid_format_def no_audio_file_def res_json_def)
qed

theorem convert_format_checked_first_witness:
  "query_format \<lparr>query_format = Some ''wav'', query_bitrate = None, req_file = None\<rparr> = Some ''wav'' \<and>
   ''wav'' \<noteq> [] \<and> ''wav'' \<notin> set supported_formats \<and>
   req_file \<lparr>query_format = Some ''wav'', query_bitrate = None, req_file = None\<rparr> = None \<and>
   convert (sound_platform failing_tool) id1
     \<lparr>query_format = Some ''wav'', query_bitrate = None, req_file = None\<rparr> empty_world
     = (invalid_format, empty_world) \<and>
   invalid_format \<noteq> no_audio_file"
  using convert_format_checked_first
    [of "\<lparr>query_format = Some ''wav'', query_bitrate = None, req_file = None\<rparr>" "''wav''"
        "sound_platform failing_tool" id1 empty_world]
  by (simp add: supported_formats_def)

subsection \<open>Missing input\<close>

text \<open>
  Claim C7, as stated, fails: a \<^verbatim>\<open>/convert\<close> request without a file is not always
  answered with the missing-file message. With the format \<^verbatim>\<open>wav\<close> and no file the
  body is the invalid-format message.
\<close>

theorem missing_file_counterexample:
  "req_file \<lparr>query_format = Some ''wav'', query_bitrate = None, req_file = None\<rparr> = None \<and>
   payload (fst (convert (sound_platform failing_tool) id1
       \<lparr>query_format = Some ''wav'', query_bitrate = None, req_file = None\<rparr> empty_world))
     \<noteq> Json (JObj [(''error'', JStr ''No audio file provided'')])"
  by (simp add: convert_def or_default_def supported_formats_def invalid_format_def res_json_def)

text \<open>
  Claim C7, amended. A \<^verbatim>\<open>/convert\<close> request without a file whose format (after the
  default) is supported is answered with status 400 and the body
  \<^verbatim>\<open>{error: "No audio file provided"}\<close>; a \<^verbatim>\<open>/convert-base64\<close> request without an
  \<^verbatim>\<open>audio\<close> field is answered with status 400 and the body
  \<^verbatim>\<open>{error: "No audio data provided"}\<close>. In both cases the world is unchanged: no file
  is created and the external tool is not run.
\<close>

theorem missing_input_rejected:
  "(req_file req = None \<and> or_default (query_format req) ''ogg'' \<in> set supported_formats \<longrightarrow>
      convert pf tempId req w = (no_audio_file, w)) \<and>
   (body_audio breq = None \<longrightarrow> convert_base64 pf tempId breq w = (no_audio_data, w)) \<and>
   status no_audio_file = 400 \<and>
   payload no_audio_file = Json (JObj [(''error'', JStr ''No audio file provided'')]) \<and>
   status no_audio_data = 400 \<and>
   payload no_audio_data = Json (JObj [(''error'', JStr ''No audio data provided'')])"
  by (simp add: convert_no_file convert_base64_no_audio no_audio_file_def no_audio_data_def
      res_json_def)

theorem missing_input_rejected_witness:
  "req_file \<lparr>query_format = Some ''mp3'', query_bitrate = None, req_file = None\<rparr> = None \<and>
   or_default (query_format \<lparr>query_format = Some ''mp3'', query_bitrate = None, req_file = None\<rparr>) ''ogg''
     \<in> set supported_formats \<and>
   convert (sound_platform failing_tool) id1
     \<lparr>query_format = Some ''mp3'', query_bitrate = None, req_file = None\<rparr> empty_world
     = (no_audio_file, empty_world) \<and>
   body_audio \<lparr>body_audio = None, body_format = Some ''mp3'', body_bitrate = None\<rparr> = None \<and>
   convert_base64 (sound_platform failing_tool) id1
     \<lparr>body_audio = None, body_format = Some ''mp3'', body_bitrate = None\<rparr> empty_world
     = (no_audio_data, empty_world)"
  using missing_input_rejected
    [of "\<lparr>query_format = Some ''mp3'', query_bitrate = None, req_file = None\<rparr>"
        "sound_platform failing_tool" id1 empty_world
        "\<lparr>body_audio = None, body_format = Some ''mp3'', body_bitrate = None\<rparr>"]
  by (simp add: or_default_def supported_formats_def)

subsection \<open>Codec arguments\<close>

text \<open>
  Claim C2. The \<^verbatim>\<open>switch\<close> of \<^verbatim>\<open>/convert\<close> follows the table of the
  specification for the five formats. The \<^verbatim>\<open>switch\<close> of \<^verbatim>\<open>/convert-base64\<close> has the
  cases \<^verbatim>\<open>mp3\<close> and \<^verbatim>\<open>ogg\<close> only, so \<^verbatim>\<open>opus\<close>, \<^verbatim>\<open>m4a\<close> and
  \<^verbatim>\<open>aac\<close> fall to its default and get the Vorbis encoder: the mapping is not the same
  on both endpoints.
\<close>

theorem codec_table_divergence:
  "convert_codecArgs ''mp3'' b = ''-c:a libmp3lame -b:a '' @ b \<and>
   convert_codecArgs ''ogg'' b = ''-c:a libvorbis -b:a '' @ b \<and>
   convert_codecArgs ''opus'' b = ''-c:a libopus -b:a '' @ b \<and>
   convert_codecArgs ''m4a'' b = ''-c:a aac -b:a '' @ b \<and>
   convert_codecArgs ''aac'' b = ''-c:a aac -b:a '' @ b \<and>
   base64_codecArgs ''mp3'' b = ''-c:a libmp3lame -b:a '' @ b \<and>
   base64_codecArgs ''ogg'' b = ''-c:a libvorbis -b:a '' @ b \<and>
   base64_codecArgs ''opus'' b = ''-c:a libvorbis -b:a '' @ b \<and>
   base64_codecArgs ''m4a'' b = ''-c:a libvorbis -b:a '' @ b \<and>
   base64_codecArgs ''aac'' b = ''-c:a libvorbis -b:a '' @ b"
  by (simp add: convert_codecArgs_def base64_codecArgs_def)

subsection \<open>Temp file names\<close>

lemma is_uuid_length: "is_uuid s \<Longrightarrow> length s = 36"
  by (simp add: is_uuid_def)

lemma tmp_paths_differ:
  "length a = length b \<Longrightarrow> a \<noteq> b \<Longrightarrow> ''/tmp/'' @ a @ x \<noteq> ''/tmp/'' @ b @ y"
  by simp

lemma input_output_differ: "convert_inputPath a e \<noteq> convert_outputPath a f"
  by (simp add: convert_inputPath_def convert_outputPath_def)

lemma is_uuid_id1: "is_uuid id1"
  unfolding id1_def by code_simp

lemma is_uuid_id2: "is_uuid id2"
  unfolding id2_def by code_simp

lemma id1_neq_id2: "id1 \<noteq> id2"
  by (simp add: id1_def id2_def)

text \<open>
  Claim C5. For two requests whose identifiers are distinct identifiers of the form
  that \<^verbatim>\<open>uuidv4()\<close> returns, the input and output paths of the two requests are four
  pairwise distinct paths, whatever the input extensions and the formats are; in
  particular the input path of a request is never its output path. The paths of
  \<^verbatim>\<open>/convert-base64\<close> are those of \<^verbatim>\<open>/convert\<close> with the empty input extension,
  so the statement covers requests to either endpoint.
\<close>

theorem temp_paths_distinct:
  assumes "is_uuid a" and "is_uuid b" and "a \<noteq> b"
  shows "distinct [convert_inputPath a e1, convert_outputPath a f1,
                   convert_inputPath b e2, convert_outputPath b f2] \<and>
         base64_inputPath a = convert_inputPath a [] \<and>
         base64_outputPath a f1 = convert_outputPath a f1"
proof -
  from assms have len: "length a = length b"
    by (simp add: is_uuid_length)
  have 1: "convert_inputPath a e1 \<noteq> convert_inputPath b e2"
    and 2: "convert_inputPath a e1 \<noteq> convert_outputPath b f2"
    and 3: "convert_outputPath a f1 \<noteq> convert_inputPath b e2"
    and 4: "convert_outputPath a f1 \<noteq> convert_outputPath b f2"
    unfolding convert_inputPath_def convert_outputPath_def
    using tmp_paths_differ [OF len \<open>a \<noteq> b\<close>] by blast+
  from 1 2 3 4 input_output_differ [of a e1 f1] input_output_differ [of b e2 f2]
  show ?thesis
    by (simp add: base64_inputPath_def base64_outputPath_def convert_inputPath_def
        convert_outputPath_def)
qed

theorem temp_paths_distinct_witness:
  "is_uuid id1 \<and> is_uuid id2 \<and> id1 \<noteq> id2 \<and>
   distinct [convert_inputPath id1 ''mp3'', convert_outputPath id1 ''ogg'',
             convert_inputPath id2 ''mp3'', convert_outputPath id2 ''ogg''] \<and>
   base64_inputPath id1 = convert_inputPath id1 [] \<and>
   base64_outputPath id1 ''ogg'' = convert_outputPath id1 ''ogg''"
  using temp_paths_distinct [OF is_uuid_id1 is_uuid_id2 id1_neq_id2,
      of "''mp3''" "''ogg''" "''mp3''" "''ogg''"]
    is_uuid_id1 is_uuid_id2 id1_neq_id2
  by blast

subsection \<open>Input extension\<close>

lemma dot_not_word: "\<not> word_char CHR ''.''"
  by (simp add: word_char_def)

lemma match_ext_append:
  "e \<noteq> [] \<Longrightarrow> list_all word_char e \<Longrightarrow> match_ext (pre @ CHR ''.'' # e) = Some e"
proof (induction pre)
  case Nil
  then show ?case by simp
next
  case (Cons c pre)
  have "\<not> list_all word_char (pre @ CHR ''.'' # e)"
    by (simp add: dot_not_word)
  with Cons show ?case by simp
qed

lemma match_ext_Some_iff:
  "match_ext n = Some e \<longleftrightarrow>
     (\<exists>pre. n = pre @ CHR ''.'' # e) \<and> e \<noteq> [] \<and> list_all word_char e"
proof
  assume "match_ext n = Some e"
  then show "(\<exists>pre. n = pre @ CHR ''.'' # e) \<and> e \<noteq> [] \<and> list_all word_char e"
  proof (induction n)
    case Nil
    then show ?case by simp
  next
    case (Cons c cs)
    show ?case
    proof (cases "c = CHR ''.'' \<and> cs \<noteq> [] \<and> list_all word_char cs")
      case True
      with Cons.prems have "e = cs" by simp
      with True have "c # cs = [] @ CHR ''.'' # e" by simp
      with True \<open>e = cs\<close> show ?thesis by blast
    next
      case False
      with Cons.prems have "match_ext cs = Some e"
        by (simp split: if_splits)
      from Cons.IH [OF this] obtain pre
        where "cs = pre @ CHR ''.'' # e" and r: "e \<noteq> [] \<and> list_all word_char e"
        by blast
      then have "c # cs = (c # pre) @ CHR ''.'' # e" by simp
      with r show ?thesis by blast
    qed
  qed
next
  assume "(\<exists>pre. n = pre @ CHR ''.'' # e) \<and> e \<noteq> [] \<and> list_all word_char e"
  then show "match_ext n = Some e"
    by (auto simp: match_ext_append)
qed

lemma match_ext_None_iff:
  "match_ext n = None \<longleftrightarrow>
     \<not> (\<exists>pre e. n = pre @ CHR ''.'' # e \<and> e \<noteq> [] \<and> list_all word_char e)"
proof -
  have "match_ext n = None \<longleftrightarrow> \<not> (\<exists>e. match_ext n = Some e)"
    by auto
  then show ?thesis
    unfolding match_ext_Some_iff by blast
qed

lemma mimeToExt_nonempty_key: "map_of mimeToExt m = Some x \<Longrightarrow> m \<noteq> []"
  by (auto simp: mimeToExt_def)

lemma resolve_by_name:
  "match_ext n = Some e \<Longrightarrow> resolve_inputExt (Some n) mime = e"
  using match_ext_Some_iff [of n e]
  by (auto simp: resolve_inputExt_def)

lemma resolve_without_ext:
  "match_ext n = None \<Longrightarrow> resolve_inputExt (Some n) mime = resolve_inputExt None mime"
  by (simp add: resolve_inputExt_def)

lemma resolve_by_mime:
  "resolve_inputExt None (Some m) = (case map_of mimeToExt m of Some x \<Rightarrow> x | None \<Rightarrow> [])"
proof (cases "m = []")
  case True
  then show ?thesis by (simp add: resolve_inputExt_def mimeToExt_def)
next
  case False
  then show ?thesis by (simp add: resolve_inputExt_def)
qed

text \<open>
  Claim C6. The input extension of a \<^verbatim>\<open>/convert\<close> upload is resolved in this
  order. A file name that ends in a dot followed by one or more word characters gives
  those characters, whatever the declared type is. A file name without such an ending
  is treated as no file name. Without a file name, a declared type that is a key of the
  table gives the table's extension (\<^verbatim>\<open>audio/mpeg\<close> gives \<^verbatim>\<open>mp3\<close>), a declared
  type that is not a key gives the empty extension, and so does a missing type. The
  resolver is a total function: it has a result for every input and no error result.
\<close>

theorem inputExt_resolution:
  "(e \<noteq> [] \<and> list_all word_char e \<longrightarrow>
      resolve_inputExt (Some (pre @ CHR ''.'' # e)) mime = e) \<and>
   (\<not> (\<exists>pre e. n = pre @ CHR ''.'' # e \<and> e \<noteq> [] \<and> list_all word_char e) \<longrightarrow>
      resolve_inputExt (Some n) mime = resolve_inputExt None mime) \<and>
   (map_of mimeToExt m = Some x \<longrightarrow> resolve_inputExt None (Some m) = x) \<and>
   resolve_inputExt None (Some ''audio/mpeg'') = ''mp3'' \<and>
   (m' \<notin> fst ` set mimeToExt \<longrightarrow> resolve_inputExt None (Some m') = []) \<and>
   resolve_inputExt None None = []"
proof -
  have 1: "e \<noteq> [] \<and> list_all word_char e \<longrightarrow>
      resolve_inputExt (Some (pre @ CHR ''.'' # e)) mime = e"
    by (simp add: resolve_by_name match_ext_append)
  have 2: "\<not> (\<exists>pre e. n = pre @ CHR ''.'' # e \<and> e \<noteq> [] \<and> list_all word_char e) \<longrightarrow>
      resolve_inputExt (Some n) mime = resolve_inputExt None mime"
    using match_ext_None_iff [of n] by (simp add: resolve_without_ext)
  have 3: "map_of mimeToExt m = Some x \<longrightarrow> resolve_inputExt None (Some m) = x"
    by (simp add: resolve_by_mime)
  have 4: "resolve_inputExt None (Some ''audio/mpeg'') = ''mp3''"
    by (simp add: resolve_by_mime mimeToExt_def)
  have 5: "m' \<notin> fst ` set mimeToExt \<longrightarrow> resolve_inputExt None (Some m') = []"
  proof
    assume "m' \<notin> fst ` set mimeToExt"
    then have "map_of mimeToExt m' = None"
      by (simp add: map_of_eq_None_iff)
    then show "resolve_inputExt None (Some m') = []"
      by (simp add: resolve_by_mime)
  qed
  have 6: "resolve_inputExt None None = []"
    by (simp add: resolve_inputExt_def)
  from 1 2 3 4 5 6 show ?thesis by blast
qed

lemma song_no_ext:
  "\<not> (\<exists>pre e. ''song'' = pre @ CHR ''.'' # e \<and> e \<noteq> [] \<and> list_all word_char e)"
  using match_ext_None_iff [of "''song''"] by simp

theorem inputExt_resolution_witness:
  "''mp3'' \<noteq> [] \<and> list_all word_char ''mp3'' \<and>
   resolve_inputExt (Some ''take.1.mp3'') (Some ''audio/wav'') = ''mp3'' \<and>
   \<not> (\<exists>pre e. ''song'' = pre @ CHR ''.'' # e \<and> e \<noteq> [] \<and> list_all word_char e) \<and>
   resolve_inputExt (Some ''song'') (Some ''audio/wav'') = resolve_inputExt None (Some ''audio/wav'') \<and>
   map_of mimeToExt ''audio/flac'' = Some ''flac'' \<and>
   resolve_inputExt None (Some ''audio/flac'') = ''flac'' \<and>
   ''text/plain'' \<notin> fst ` set mimeToExt \<and>
   resolve_inputExt None (Some ''text/plain'') = []"
proof -
  have a: "''mp3'' \<noteq> [] \<and> list_all word_char ''mp3''"
    by (simp add: word_char_def)
  have b: "map_of mimeToExt ''audio/flac'' = Some ''flac''"
    by (simp add: mimeToExt_def)
  have c: "''text/plain'' \<notin> fst ` set mimeToExt"
    by (simp add: mimeToExt_def)
  from a b c song_no_ext
    inputExt_resolution [of "''mp3''" "''take.1''" "Some ''audio/wav''" "''song''"
      "''audio/flac''" "''flac''" "''text/plain''"]
  show ?thesis by simp
qed

subsection \<open>What the handlers do once the request is accepted\<close>

lemma convert_accepted:
  assumes "or_default (query_format req) ''ogg'' \<in> set supported_formats"
    and "req_file req = Some f"
  shows "convert pf tempId req w =
     (fst (convert_try pf f (or_default (query_format req) ''ogg'')
             (or_default (query_bitrate req) ''128k'')
             (convert_inputPath tempId (resolve_inputExt (originalname f) (mimetype f)))
             (convert_outputPath tempId (or_default (query_format req) ''ogg'')) w),
      cleanup pf
        (convert_inputPath tempId (resolve_inputExt (originalname f) (mimetype f)))
        (convert_outputPath tempId (or_default (query_format req) ''ogg''))
        (snd (convert_try pf f (or_default (query_format req) ''ogg'')
             (or_default (query_bitrate req) ''128k'')
             (convert_inputPath tempId (resolve_inputExt (originalname f) (mimetype f)))
             (convert_outputPath tempId (or_default (query_format req) ''ogg'')) w)))"
  using assms by (simp add: convert_def Let_def split_beta)

lemma convert_base64_accepted:
  assumes "body_audio req = Some a" and "a \<noteq> []"
  shows "convert_base64 pf tempId req w =
     (fst (base64_try pf a (destructure_default (body_format req) ''ogg'')
             (destructure_default (body_bitrate req) ''128k'')
             (base64_inputPath tempId)
             (base64_outputPath tempId (destructure_default (body_format req) ''ogg'')) w),
      cleanup pf (base64_inputPath tempId)
        (base64_outputPath tempId (destructure_default (body_format req) ''ogg''))
        (snd (base64_try pf a (destructure_default (body_format req) ''ogg'')
             (destructure_default (body_bitrate req) ''128k'')
             (base64_inputPath tempId)
             (base64_outputPath tempId (destructure_default (body_format req) ''ogg'')) w)))"
  using assms by (simp add: convert_base64_def Let_def split_beta)

lemma execs_convert_try:
  "write_error pf inputPath = None \<Longrightarrow>
     execs (snd (convert_try pf f format bitrate inputPath outputPath w)) =
       execs w @ [convert_cmd inputPath (convert_codecArgs format bitrate) outputPath]"
  by (simp add: convert_try_def writeFileSync_def execSync_def Let_def split_beta
      split: sum.splits)

lemma execs_base64_try:
  "write_error pf inputPath = None \<Longrightarrow>
     execs (snd (base64_try pf a format bitrate inputPath outputPath w)) =
       execs w @ [base64_cmd inputPath (base64_codecArgs format bitrate) outputPath]"
  by (simp add: base64_try_def writeFileSync_def execSync_def Let_def split_beta
      split: sum.splits)







lemma status_base64_try:
  "status (fst (base64_try pf a format bitrate inputPath outputPath w)) = 200 \<or>
   status (fst (base64_try pf a format bitrate inputPath outputPath w)) = 500"
  by (simp add: base64_try_def Let_def split_beta res_json_def split: sum.splits)


lemma convert_codecArgs_shape:
  "format \<in> set supported_formats \<Longrightarrow>
     \<exists>encoder \<in> set [''libmp3lame'', ''libvorbis'', ''libopus'', ''aac''].
       convert_codecArgs format bitrate = ''-c:a '' @ encoder @ '' -b:a '' @ bitrate"
  by (auto simp: supported_formats_def convert_codecArgs_def)

lemma base64_codecArgs_shape:
  "\<exists>encoder \<in> set [''libmp3lame'', ''libvorbis''].
     base64_codecArgs format bitrate = ''-c:a '' @ encoder @ '' -b:a '' @ bitrate"
  by (auto simp: base64_codecArgs_def)

subsection \<open>The command line\<close>

text \<open>
  Claim C8. A request reaches the transcode step when it passes the checks and its
  input file is written. The command handed to the external tool is then
  \<^verbatim>\<open>ffmpeg -i <input> -c:a <encoder> -b:a <bitrate> -y <output>\<close>, with the two temp
  paths of the request and the bitrate string of the request, character for character
  (the default \<^verbatim>\<open>128k\<close> when the request gives none); it is the one command the
  request adds to those run. In \<^verbatim>\<open>/convert\<close> the two paths are wrapped in double
  quotes, which the shell removes; in \<^verbatim>\<open>/convert-base64\<close> they are not.
\<close>

theorem command_shape:
  "(or_default (query_format req) ''ogg'' \<in> set supported_formats \<and> req_file req = Some f \<and>
    write_error pf (convert_inputPath tempId (resolve_inputExt (originalname f) (mimetype f))) = None \<longrightarrow>
      (\<exists>encoder \<in> set [''libmp3lame'', ''libvorbis'', ''libopus'', ''aac''].
         execs (snd (convert pf tempId req w)) = execs w @
           [''ffmpeg -i '' @ dquote
              @ convert_inputPath tempId (resolve_inputExt (originalname f) (mimetype f)) @ dquote
              @ '' -c:a '' @ encoder @ '' -b:a '' @ or_default (query_bitrate req) ''128k''
              @ '' -y '' @ dquote
              @ convert_outputPath tempId (or_default (query_format req) ''ogg'') @ dquote])) \<and>
   (body_audio breq = Some a \<and> a \<noteq> [] \<and> write_error pf (base64_inputPath tempId) = None \<longrightarrow>
      (\<exists>encoder \<in> set [''libmp3lame'', ''libvorbis''].
         execs (snd (convert_base64 pf tempId breq w)) = execs w @
           [''ffmpeg -i '' @ base64_inputPath tempId
              @ '' -c:a '' @ encoder @ '' -b:a '' @ destructure_default (body_bitrate breq) ''128k''
              @ '' -y ''
              @ base64_outputPath tempId (destructure_default (body_format breq) ''ogg'')])) \<and>
   (b \<noteq> [] \<longrightarrow> or_default (Some b) ''128k'' = b) \<and>
   destructure_default (Some b) ''128k'' = b"
proof -
  have 1: "\<exists>encoder \<in> set [''libmp3lame'', ''libvorbis'', ''libopus'', ''aac''].
         execs (snd (convert pf tempId req w)) = execs w @
           [''ffmpeg -i '' @ dquote
              @ convert_inputPath tempId (resolve_inputExt (originalname f) (mimetype f)) @ dquote
              @ '' -c:a '' @ encoder @ '' -b:a '' @ or_default (query_bitrate req) ''128k''
              @ '' -y '' @ dquote
              @ convert_outputPath tempId (or_default (query_format req) ''ogg'') @ dquote]"
    if ok: "or_default (query_format req) ''ogg'' \<in> set supported_formats"
      and upl: "req_file req = Some f"
      and wr: "write_error pf
        (convert_inputPath tempId (resolve_inputExt (originalname f) (mimetype f))) = None"
  proof -
    from convert_codecArgs_shape [OF ok] obtain encoder
      where enc: "encoder \<in> set [''libmp3lame'', ''libvorbis'', ''libopus'', ''aac'']"
        and args: "convert_codecArgs (or_default (query_format req) ''ogg'')
                     (or_default (query_bitrate req) ''128k'') =
                   ''-c:a '' @ encoder @ '' -b:a '' @ or_default (query_bitrate req) ''128k''"
      by blast
    have "execs (snd (convert pf tempId req w)) = execs w @
        [convert_cmd (convert_inputPath tempId (resolve_inputExt (originalname f) (mimetype f)))
           (convert_codecArgs (or_default (query_format req) ''ogg'')
              (or_default (query_bitrate req) ''128k''))
           (convert_outputPath tempId (or_default (query_format req) ''ogg''))]"
      by (simp add: convert_accepted [OF ok upl] execs_cleanup execs_convert_try [OF wr])
    with args have "execs (snd (convert pf tempId req w)) = execs w @
           [''ffmpeg -i '' @ dquote
              @ convert_inputPath tempId (resolve_inputExt (originalname f) (mimetype f)) @ dquote
              @ '' -c:a '' @ encoder @ '' -b:a '' @ or_default (query_bitrate req) ''128k''
              @ '' -y '' @ dquote
              @ convert_outputPath tempId (or_default (query_format req) ''ogg'') @ dquote]"
      by (simp add: convert_cmd_def)
    with enc show ?thesis by blast
  qed
  have 2: "\<exists>encoder \<in> set [''libmp3lame'', ''libvorbis''].
         execs (snd (convert_base64 pf tempId breq w)) = execs w @
           [''ffmpeg -i '' @ base64_inputPath tempId
              @ '' -c:a '' @ encoder @ '' -b:a '' @ destructure_default (body_bitrate breq) ''128k''
              @ '' -y ''
              @ base64_outputPath tempId (destructure_default (body_format breq) ''ogg'')]"
    if audio: "body_audio breq = Some a" "a \<noteq> []"
      and wr: "write_error pf (base64_inputPath tempId) = None"
  proof -
    from base64_codecArgs_shape obtain encoder
      where enc: "encoder \<in> set [''libmp3lame'', ''libvorbis'']"
        and args: "base64_codecArgs (destructure_default (body_format breq) ''ogg'')
                     (destructure_default (body_bitrate breq) ''128k'') =
                   ''-c:a '' @ encoder @ '' -b:a '' @ destructure_default (body_bitrate breq) ''128k''"
      by blast
    have "execs (snd (convert_base64 pf tempId breq w)) = execs w @
        [base64_cmd (base64_inputPath tempId)
           (base64_codecArgs (destructure_default (body_format breq) ''ogg'')
              (destructure_default (body_bitrate breq) ''128k''))
           (base64_outputPath tempId (destructure_default (body_format breq) ''ogg''))]"
      by (simp add: convert_base64_accepted [OF audio] execs_cleanup execs_base64_try [OF wr])
    with args have "execs (snd (convert_base64 pf tempId breq w)) = execs w @
           [''ffmpeg -i '' @ base64_inputPath tempId
              @ '' -c:a '' @ encoder @ '' -b:a '' @ destructure_default (body_bitrate breq) ''128k''
              @ '' -y ''
              @ base64_outputPath tempId (destructure_default (body_format breq) ''ogg'')]"
      by (simp add: base64_cmd_def)
    with enc show ?thesis by blast
  qed
  have 3: "b \<noteq> [] \<longrightarrow> or_default (Some b) ''128k'' = b"
    by (simp add: or_default_def)
  have 4: "destructure_default (Some b) ''128k'' = b"
    by (simp add: destructure_default_def)
  from 1 2 3 4 show ?thesis by blast
qed

lemma sample_convert_request_simps:
  "query_format (sample_convert_request fmt) = Some fmt"
  "query_bitrate (sample_convert_request fmt) = Some ''96k''"
  "req_file (sample_convert_request fmt) = Some sample_upload"
  by (simp_all add: sample_convert_request_def)

lemma sample_base64_request_simps:
  "body_audio (sample_base64_request a fmt) = Some (utf16 a)"
  "body_format (sample_base64_request a fmt) = Some fmt"
  "body_bitrate (sample_base64_request a fmt) = Some ''96k''"
  by (simp_all add: sample_base64_request_def)

lemma sound_platform_simps:
  "run_tool (sound_platform tool) = tool"
  "write_error (sound_platform tool) p = None"
  "unlink_error (sound_platform tool) p = None"
  "from_base64 (sound_platform tool) = base64_decode"
  "to_base64 (sound_platform tool) = base64_encode"
  by (simp_all add: sound_platform_def)

lemma opus_supported: "or_default (Some ''opus'') ''ogg'' \<in> set supported_formats"
  by (simp add: or_default_def supported_formats_def)

theorem command_shape_witness:
  "or_default (query_format (sample_convert_request ''opus'')) ''ogg'' \<in> set supported_formats \<and>
   req_file (sample_convert_request ''opus'') = Some sample_upload \<and>
   write_error (sound_platform failing_tool)
     (convert_inputPath id1
        (resolve_inputExt (originalname sample_upload) (mimetype sample_upload))) = None \<and>
   (\<exists>encoder \<in> set [''libmp3lame'', ''libvorbis'', ''libopus'', ''aac''].
      execs (snd (convert (sound_platform failing_tool) id1 (sample_convert_request ''opus'')
                    empty_world)) =
        [''ffmpeg -i '' @ dquote @ ''/tmp/123e4567-e89b-42d3-a456-426614174000_input.wav'' @ dquote
           @ '' -c:a '' @ encoder @ '' -b:a 96k -y '' @ dquote
           @ ''/tmp/123e4567-e89b-42d3-a456-426614174000_output.opus'' @ dquote]) \<and>
   body_audio (sample_base64_request ''QUJD'' ''mp3'') = Some (utf16 ''QUJD'') \<and> utf16 ''QUJD'' \<noteq> [] \<and>
   write_error (sound_platform failing_tool) (base64_inputPath id1) = None \<and>
   (\<exists>encoder \<in> set [''libmp3lame'', ''libvorbis''].
      execs (snd (convert_base64 (sound_platform failing_tool) id1
                    (sample_base64_request ''QUJD'' ''mp3'') empty_world)) =
        [''ffmpeg -i /tmp/123e4567-e89b-42d3-a456-426614174000_input''
           @ '' -c:a '' @ encoder @ '' -b:a 96k -y ''
           @ ''/tmp/123e4567-e89b-42d3-a456-426614174000_output.mp3'']) \<and>
   ''96k'' \<noteq> [] \<and> or_default (Some ''96k'') ''128k'' = ''96k''"
proof -
  have h1: "or_default (query_format (sample_convert_request ''opus'')) ''ogg''
      \<in> set supported_formats"
    by (simp add: sample_convert_request_simps opus_supported)
  have h2: "req_file (sample_convert_request ''opus'') = Some sample_upload"
    by (simp add: sample_convert_request_simps)
  have h3: "write_error (sound_platform failing_tool)
     (convert_inputPath id1
        (resolve_inputExt (originalname sample_upload) (mimetype sample_upload))) = None"
    by (simp add: sound_platform_simps)
  have h4: "body_audio (sample_base64_request ''QUJD'' ''mp3'') = Some (utf16 ''QUJD'') \<and> utf16 ''QUJD'' \<noteq> []"
    by (simp add: sample_base64_request_simps)
  have h5: "write_error (sound_platform failing_tool) (base64_inputPath id1) = None"
    by (simp add: sound_platform_simps)
  have ext: "resolve_inputExt (originalname sample_upload) (mimetype sample_upload) = ''wav''"
    by (simp add: sample_upload_def resolve_inputExt_def word_char_def)
  have h6: "''96k'' \<noteq> []"
    by simp
  note shape = command_shape [of "sample_convert_request ''opus''" sample_upload
      "sound_platform failing_tool" id1 empty_world "sample_base64_request ''QUJD'' ''mp3''"
      "utf16 ''QUJD''" "''96k''"]
  from shape h1 h2 h3 have
    "\<exists>encoder \<in> set [''libmp3lame'', ''libvorbis'', ''libopus'', ''aac''].
       execs (snd (convert (sound_platform failing_tool) id1 (sample_convert_request ''opus'')
                 empty_world)) = execs empty_world @
           [''ffmpeg -i '' @ dquote
              @ convert_inputPath id1
                  (resolve_inputExt (originalname sample_upload) (mimetype sample_upload)) @ dquote
              @ '' -c:a '' @ encoder @ '' -b:a ''
              @ or_default (query_bitrate (sample_convert_request ''opus'')) ''128k''
              @ '' -y '' @ dquote
              @ convert_outputPath id1
                  (or_default (query_format (sample_convert_request ''opus'')) ''ogg'') @ dquote]"
    by blast
  then have c1: "\<exists>encoder \<in> set [''libmp3lame'', ''libvorbis'', ''libopus'', ''aac''].
      execs (snd (convert (sound_platform failing_tool) id1 (sample_convert_request ''opus'')
                    empty_world)) =
        [''ffmpeg -i '' @ dquote @ ''/tmp/123e4567-e89b-42d3-a456-426614174000_input.wav'' @ dquote
           @ '' -c:a '' @ encoder @ '' -b:a 96k -y '' @ dquote
           @ ''/tmp/123e4567-e89b-42d3-a456-426614174000_output.opus'' @ dquote]"
    by (simp add: ext sample_convert_request_simps or_default_def empty_world_def
        convert_inputPath_def convert_outputPath_def id1_def)
  from shape h4 h5 have
    "\<exists>encoder \<in> set [''libmp3lame'', ''libvorbis''].
         execs (snd (convert_base64 (sound_platform failing_tool) id1
                    (sample_base64_request ''QUJD'' ''mp3'') empty_world)) = execs empty_world @
           [''ffmpeg -i '' @ base64_inputPath id1
              @ '' -c:a '' @ encoder @ '' -b:a ''
              @ destructure_default (body_bitrate (sample_base64_request ''QUJD'' ''mp3'')) ''128k''
              @ '' -y ''
              @ base64_outputPath id1
                  (destructure_default (body_format (sample_base64_request ''QUJD'' ''mp3'')) ''ogg'')]"
    by blast
  then have c2: "\<exists>encoder \<in> set [''libmp3lame'', ''libvorbis''].
      execs (snd (convert_base64 (sound_platform failing_tool) id1
                    (sample_base64_request ''QUJD'' ''mp3'') empty_world)) =
        [''ffmpeg -i /tmp/123e4567-e89b-42d3-a456-426614174000_input''
           @ '' -c:a '' @ encoder @ '' -b:a 96k -y ''
           @ ''/tmp/123e4567-e89b-42d3-a456-426614174000_output.mp3'']"
    by (simp add: sample_base64_request_simps destructure_default_def empty_world_def
        base64_inputPath_def base64_outputPath_def id1_def)
  from shape h6 have c3: "or_default (Some ''96k'') ''128k'' = ''96k''"
    by blast
  from h1 h2 h3 h4 h5 h6 c1 c2 c3 show ?thesis
    by blast
qed

subsection \<open>Cleanup\<close>



lemma cleanup_first_deletion_fails:
  "files w i = Some b \<Longrightarrow> unlink_error pf i = Some msg \<Longrightarrow> cleanup pf i out w = w"
  by (simp add: cleanup_def existsSync_def unlinkSync_def)

lemma wav_unsupported: "or_default (Some ''wav'') ''ogg'' \<notin> set supported_formats"
  by (simp add: or_default_def supported_formats_def)


text \<open>
  The cleanup removes the two paths that the handler derived. \<^verbatim>\<open>/convert-base64\<close>
  does not validate the format and does not quote the paths, so for the format
  \<^verbatim>\<open>ogg\<close> followed by a space the tool writes to the path without the space: the
  handler does not find its output path, answers 500 and leaves the file that the tool
  wrote.
\<close>

lemma unvalidated_format_leftover:
  "status (fst (convert_base64 (sound_platform tagging_tool) id2 (wav_base64_request ''ogg '')
                  empty_world)) = 500 \<and>
   files (snd (convert_base64 (sound_platform tagging_tool) id2 (wav_base64_request ''ogg '')
                 empty_world)) (base64_inputPath id2) = None \<and>
   files (snd (convert_base64 (sound_platform tagging_tool) id2 (wav_base64_request ''ogg '')
                 empty_world)) (base64_outputPath id2 ''ogg '') = None \<and>
   files (snd (convert_base64 (sound_platform tagging_tool) id2 (wav_base64_request ''ogg '')
                 empty_world)) (base64_outputPath id2 ''ogg'') = Some (2 # wav_bytes)"
  by code_simp

subsection \<open>The base64 codec\<close>

text \<open>Decoding what was encoded gives the bytes back.\<close>

lemma sextet_table:
  "list_all (\<lambda>n. unbase64 (sextet_char n) = Some n \<and> sextet_char n \<noteq> CHR ''='') [0..<64]"
  by code_simp

lemma sextet_char_inverse:
  "n < 64 \<Longrightarrow> unbase64 (sextet_char n) = Some n \<and> sextet_char n \<noteq> CHR ''=''"
  using sextet_table by (simp add: list_all_iff)

lemma sextets_sextet_char:
  "n < 64 \<Longrightarrow> sextets (of_nat (of_char (sextet_char n)) # us) = n # sextets us"
  by (simp add: sextet_char_inverse)

lemma group_bounds:
  fixes a b c :: nat
  assumes "a < 256" and "b < 256" and "c < 256"
  shows "a div 4 < 64" and "a mod 4 * 16 + b div 16 < 64" and "b mod 16 * 4 + c div 64 < 64"
    and "c mod 64 < 64" and "b mod 16 * 4 < 64" and "a mod 4 * 16 < 64"
  using assms by auto

lemma group_first:
  fixes a b :: nat
  assumes "b < 256"
  shows "a div 4 * 4 + (a mod 4 * 16 + b div 16) div 16 = a"
proof -
  from assms have "b div 16 < 16" by simp
  then have "(a mod 4 * 16 + b div 16) div 16 = a mod 4" by simp
  then show ?thesis by simp
qed

lemma group_second:
  fixes a b c :: nat
  assumes "b < 256" and "c < 256"
  shows "(a mod 4 * 16 + b div 16) mod 16 * 16 + (b mod 16 * 4 + c div 64) div 4 = b"
proof -
  from assms have "b div 16 < 16" and "c div 64 < 4" by simp_all
  then have "(a mod 4 * 16 + b div 16) mod 16 = b div 16"
    and "(b mod 16 * 4 + c div 64) div 4 = b mod 16" by simp_all
  then show ?thesis by simp
qed

lemma group_third:
  fixes b c :: nat
  assumes "c < 256"
  shows "(b mod 16 * 4 + c div 64) mod 4 * 64 + c mod 64 = c"
proof -
  from assms have "c div 64 < 4" by simp
  then have "(b mod 16 * 4 + c div 64) mod 4 = c div 64" by simp
  then show ?thesis by simp
qed

lemma pair_second:
  fixes a b :: nat
  assumes "b < 256"
  shows "(a mod 4 * 16 + b div 16) mod 16 * 16 + (b mod 16 * 4) div 4 = b"
  using group_second [OF assms, of 0 a] by simp

lemma single_first:
  fixes a :: nat
  shows "a div 4 * 4 + (a mod 4 * 16) div 16 = a"
  using group_first [of 0 a] by simp

lemma low_byte_pad: "low_byte 61 = CHR ''=''"
  by code_simp

lemma unat_byte: "unat (a :: 8 word) < 256"
  using unsigned_less [of a, where ?'a = nat] by simp

lemma octets_group:
  assumes "a < 256" and "b < 256" and "c < 256"
  shows "octets (a div 4 # (a mod 4 * 16 + b div 16) # (b mod 16 * 4 + c div 64) # c mod 64 # r) =
           [of_nat a, of_nat b, of_nat c] @ octets r"
  by (simp only: octets.simps group_first [OF assms(2)] group_second [OF assms(2, 3)]
      group_third [OF assms(3)])

lemma octets_pair:
  assumes "b < 256"
  shows "octets [a div 4, a mod 4 * 16 + b div 16, b mod 16 * 4] = [of_nat a, of_nat b]"
  by (simp only: octets.simps group_first [OF assms] pair_second [OF assms])

lemma octets_single: "octets [a div 4, a mod 4 * 16] = [of_nat a]"
  by (simp only: octets.simps single_first)

lemma base64_roundtrip: "base64_decode (utf16 (base64_encode b)) = b"
proof -
  have "octets (sextets (utf16 (base64_encode b))) = b"
  proof (induction b rule: base64_encode.induct)
    case (1 a b c rest)
    note ua = unat_byte [of a] and ub = unat_byte [of b] and uc = unat_byte [of c]
    have "sextets (utf16 (base64_encode (a # b # c # rest))) =
        unat a div 4 # (unat a mod 4 * 16 + unat b div 16) #
        (unat b mod 16 * 4 + unat c div 64) # unat c mod 64 # sextets (utf16 (base64_encode rest))"
      by (simp add: sextets_sextet_char group_bounds [OF ua ub uc] del: sextets.simps)
    then have "octets (sextets (utf16 (base64_encode (a # b # c # rest)))) =
        [of_nat (unat a), of_nat (unat b), of_nat (unat c)] @ octets (sextets (utf16 (base64_encode rest)))"
      by (simp only: octets_group [OF ua ub uc])
    with 1 show ?case by simp
  next
    case (2 a b)
    note ua = unat_byte [of a] and ub = unat_byte [of b]
    have "sextets (utf16 (base64_encode [a, b])) =
        [unat a div 4, unat a mod 4 * 16 + unat b div 16, unat b mod 16 * 4]"
      by (simp add: sextets_sextet_char group_bounds [OF ua ub ub] del: sextets.simps)
        (simp add: sextets.simps low_byte_pad)
    then have "octets (sextets (utf16 (base64_encode [a, b]))) = [of_nat (unat a), of_nat (unat b)]"
      by (simp only: octets_pair [OF ub])
    then show ?case by simp
  next
    case (3 a)
    note ua = unat_byte [of a]
    have "sextets (utf16 (base64_encode [a])) = [unat a div 4, unat a mod 4 * 16]"
      by (simp add: sextets_sextet_char group_bounds [OF ua ua ua] del: sextets.simps)
        (simp add: sextets.simps low_byte_pad)
    then have "octets (sextets (utf16 (base64_encode [a]))) = [of_nat (unat a)]"
      by (simp only: octets_single)
    then show ?case by simp
  next
    case 4
    show ?case by simp
  qed
  then show ?thesis by (simp add: base64_decode_def)
qed

text \<open>
  Both handlers answer with the bytes of the output file that the tool left: the raw
  bytes in \<^verbatim>\<open>/convert\<close>, their base64 text in \<^verbatim>\<open>/convert-base64\<close>.
\<close>

lemma convert_try_success:
  assumes "write_error pf inputPath = None"
    and "run_tool pf (convert_cmd inputPath (convert_codecArgs format bitrate) outputPath)
           ((files w)(inputPath \<mapsto> buffer f)) = (Inr out, fs)"
    and "fs outputPath = Some b"
  shows "payload (fst (convert_try pf f format bitrate inputPath outputPath w)) = Raw b"
  using assms
  by (simp add: convert_try_def writeFileSync_def execSync_def readFileSync_def res_send_def)

lemma base64_try_success:
  assumes "write_error pf inputPath = None"
    and "run_tool pf (base64_cmd inputPath (base64_codecArgs format bitrate) outputPath)
           ((files w)(inputPath \<mapsto> from_base64 pf a)) = (Inr out, fs)"
    and "fs outputPath = Some b"
  shows "payload (fst (base64_try pf a format bitrate inputPath outputPath w)) =
           Json (JObj [(''audio'', JStr (to_base64 pf b)), (''format'', JStr format),
                       (''size'', JNum (length b))])"
  using assms
  by (simp add: base64_try_def writeFileSync_def execSync_def readFileSync_def res_json_def)

subsection \<open>Base64 input\<close>










subsection \<open>Format validation on the two endpoints\<close>

lemma base64_encode_123: "base64_encode [1, 2, 3] = ''AQID''"
  by (simp add: sextet_char_def base64_alphabet_def)

lemma base64_writing_tool_response:
  "fst (convert_base64 (sound_platform (writing_tool (base64_outputPath tempId fmt) b)) tempId
         (sample_base64_request ''QUJD'' fmt) w) =
     res_json 200
       (JObj [(''audio'', JStr (base64_encode b)), (''format'', JStr fmt),
              (''size'', JNum (length b))])"
  by (simp add: convert_base64_accepted [of _ "utf16 ''QUJD''"] sample_base64_request_simps
      destructure_default_def base64_try_def writeFileSync_def execSync_def readFileSync_def
      sound_platform_simps writing_tool_def)

text \<open>
  Claim C1. \<^verbatim>\<open>/convert\<close> rejects the unsupported format \<^verbatim>\<open>wav\<close> with status 400 and
  the invalid-format message (for every unsupported format, see
  \<open>convert_invalid_format\<close>). \<^verbatim>\<open>/convert-base64\<close> has no such check: for the same
  format its status is 200 or 500 on every platform, and it is 200, with the format
  \<^verbatim>\<open>wav\<close> in the body, when the tool leaves an output file.
\<close>

theorem base64_format_not_validated:
  "convert pf tempId (sample_convert_request ''wav'') w = (invalid_format, w) \<and>
   status invalid_format = 400 \<and>
   (status (fst (convert_base64 pf tempId (sample_base64_request ''QUJD'' ''wav'') w)) = 200 \<or>
    status (fst (convert_base64 pf tempId (sample_base64_request ''QUJD'' ''wav'') w)) = 500) \<and>
   fst (convert_base64 (sound_platform (writing_tool (base64_outputPath id1 ''wav'') [1, 2, 3])) id1
          (sample_base64_request ''QUJD'' ''wav'') empty_world) =
     res_json 200 (JObj [(''audio'', JStr ''AQID''), (''format'', JStr ''wav''), (''size'', JNum 3)])"
proof -
  have 1: "convert pf tempId (sample_convert_request ''wav'') w = (invalid_format, w)"
    by (simp add: convert_invalid_format sample_convert_request_simps wav_unsupported)
  have 2: "status invalid_format = 400"
    by (simp add: invalid_format_def res_json_def)
  have 3: "status (fst (convert_base64 pf tempId (sample_base64_request ''QUJD'' ''wav'') w)) = 200 \<or>
    status (fst (convert_base64 pf tempId (sample_base64_request ''QUJD'' ''wav'') w)) = 500"
    by (simp add: convert_base64_accepted [of _ "utf16 ''QUJD''"] sample_base64_request_simps
        status_base64_try)
  have 4: "fst (convert_base64 (sound_platform (writing_tool (base64_outputPath id1 ''wav'') [1, 2, 3]))
          id1 (sample_base64_request ''QUJD'' ''wav'') empty_world) =
     res_json 200 (JObj [(''audio'', JStr ''AQID''), (''format'', JStr ''wav''), (''size'', JNum 3)])"
    by (simp only: base64_writing_tool_response base64_encode_123) (simp add: numeral_3_eq_3)
  from 1 2 3 4 show ?thesis by blast
qed

subsection \<open>The two endpoints on the same input\<close>

text \<open>
  With the tool stand-in, for any input bytes: \<^verbatim>\<open>/convert\<close> answers with the tag of the
  encoder it names followed by the input bytes, and \<^verbatim>\<open>/convert-base64\<close> with the base64
  text of the same for the encoder it names.
\<close>

lemma tool_args_convert_opus:
  "tool_args (shell_words (convert_cmd (convert_inputPath id1 ''wav'')
      (convert_codecArgs ''opus'' ''128k'') (convert_outputPath id1 ''opus''))) =
   Some (convert_inputPath id1 ''wav'', ''libopus'', convert_outputPath id1 ''opus'')"
  by code_simp

lemma tool_args_convert_mp3:
  "tool_args (shell_words (convert_cmd (convert_inputPath id1 ''wav'')
      (convert_codecArgs ''mp3'' ''128k'') (convert_outputPath id1 ''mp3''))) =
   Some (convert_inputPath id1 ''wav'', ''libmp3lame'', convert_outputPath id1 ''mp3'')"
  by code_simp

lemma tool_args_base64_opus:
  "tool_args (shell_words (base64_cmd (base64_inputPath id2)
      (base64_codecArgs ''opus'' ''128k'') (base64_outputPath id2 ''opus''))) =
   Some (base64_inputPath id2, ''libvorbis'', base64_outputPath id2 ''opus'')"
  by code_simp

lemma tool_args_base64_mp3:
  "tool_args (shell_words (base64_cmd (base64_inputPath id2)
      (base64_codecArgs ''mp3'' ''128k'') (base64_outputPath id2 ''mp3''))) =
   Some (base64_inputPath id2, ''libmp3lame'', base64_outputPath id2 ''mp3'')"
  by code_simp

lemma tone_wav_ext: "resolve_inputExt (Some ''tone.wav'') m = ''wav''"
  by (simp add: resolve_inputExt_def word_char_def)

lemma base64_paths_differ: "base64_inputPath a \<noteq> base64_outputPath a f"
  by (simp add: base64_inputPath_def base64_outputPath_def)

lemma convert_tagging_tool_opus:
  "payload (fst (convert (sound_platform tagging_tool) id1
     \<lparr>query_format = Some ''opus'', query_bitrate = None,
      req_file = Some \<lparr>originalname = Some ''tone.wav'', mimetype = m, buffer = b,
                       upload_size = n\<rparr>\<rparr> w)) = Raw (3 # b)"
  by (simp add: convert_def or_default_def supported_formats_def tone_wav_ext convert_try_def
      writeFileSync_def execSync_def readFileSync_def sound_platform_simps tagging_tool_def
      tool_args_convert_opus encoder_tag_def res_send_def Let_def split_beta
      input_output_differ)

lemma convert_tagging_tool_mp3:
  "payload (fst (convert (sound_platform tagging_tool) id1
     \<lparr>query_format = Some ''mp3'', query_bitrate = None,
      req_file = Some \<lparr>originalname = Some ''tone.wav'', mimetype = m, buffer = b,
                       upload_size = n\<rparr>\<rparr> w)) = Raw (1 # b)"
  by (simp add: convert_def or_default_def supported_formats_def tone_wav_ext convert_try_def
      writeFileSync_def execSync_def readFileSync_def sound_platform_simps tagging_tool_def
      tool_args_convert_mp3 encoder_tag_def res_send_def Let_def split_beta
      input_output_differ)

lemma base64_tagging_tool_opus:
  "a \<noteq> [] \<Longrightarrow>
   payload (fst (convert_base64 (sound_platform tagging_tool) id2
     \<lparr>body_audio = Some a, body_format = Some ''opus'', body_bitrate = None\<rparr> w)) =
   Json (JObj [(''audio'', JStr (base64_encode (2 # base64_decode a))),
               (''format'', JStr ''opus''), (''size'', JNum (Suc (length (base64_decode a))))])"
  by (simp add: convert_base64_def destructure_default_def base64_try_def
      writeFileSync_def execSync_def readFileSync_def sound_platform_simps tagging_tool_def
      tool_args_base64_opus encoder_tag_def res_json_def Let_def split_beta
      base64_paths_differ)

lemma base64_tagging_tool_mp3:
  "a \<noteq> [] \<Longrightarrow>
   payload (fst (convert_base64 (sound_platform tagging_tool) id2
     \<lparr>body_audio = Some a, body_format = Some ''mp3'', body_bitrate = None\<rparr> w)) =
   Json (JObj [(''audio'', JStr (base64_encode (1 # base64_decode a))),
               (''format'', JStr ''mp3''), (''size'', JNum (Suc (length (base64_decode a))))])"
  by (simp add: convert_base64_def destructure_default_def base64_try_def
      writeFileSync_def execSync_def readFileSync_def sound_platform_simps tagging_tool_def
      tool_args_base64_mp3 encoder_tag_def res_json_def Let_def split_beta
      base64_paths_differ)

text \<open>
  Claim C3. The same audio file, format and bitrate do not give the same bytes on the
  two endpoints. The tool stand-in is a function of the input bytes and the encoder
  only. With it, for the format \<^verbatim>\<open>opus\<close> both endpoints answer 200, \<^verbatim>\<open>/convert\<close> with
  the bytes of the encoder \<^verbatim>\<open>libopus\<close> (tag 3) and \<^verbatim>\<open>/convert-base64\<close> with the
  base64 text of the bytes of the encoder \<^verbatim>\<open>libvorbis\<close> (tag 2), which decodes to
  other bytes than the body of \<^verbatim>\<open>/convert\<close>. For the format \<^verbatim>\<open>mp3\<close>, where the two
  \<^verbatim>\<open>switch\<close> statements agree, the same input gives the same bytes on both endpoints,
  although the names of the temp files and the quoting differ. The input here is a
  small audio file; the lemmas above say the same of any input bytes.
\<close>

theorem modes_differ_for_opus:
  "buffer wav_upload = base64_decode (utf16 wav_base64) \<and>
   fst (convert (sound_platform tagging_tool) id1 (wav_convert_request ''opus'') empty_world) =
     res_send ''audio/opus'' (3 # wav_bytes) \<and>
   fst (convert_base64 (sound_platform tagging_tool) id2 (wav_base64_request ''opus'')
          empty_world) =
     res_json 200
       (JObj [(''audio'', JStr (base64_encode (2 # wav_bytes))), (''format'', JStr ''opus''),
              (''size'', JNum 61)]) \<and>
   base64_decode (utf16 (base64_encode (2 # wav_bytes))) = 2 # wav_bytes \<and>
   2 # wav_bytes \<noteq> 3 # wav_bytes \<and>
   fst (convert (sound_platform tagging_tool) id1 (wav_convert_request ''mp3'') empty_world) =
     res_send ''audio/mpeg'' (1 # wav_bytes) \<and>
   fst (convert_base64 (sound_platform tagging_tool) id2 (wav_base64_request ''mp3'')
          empty_world) =
     res_json 200
       (JObj [(''audio'', JStr (base64_encode (1 # wav_bytes))), (''format'', JStr ''mp3''),
              (''size'', JNum 61)]) \<and>
   base64_decode (utf16 (base64_encode (1 # wav_bytes))) = 1 # wav_bytes"
proof -
  have 1: "buffer wav_upload = base64_decode (utf16 wav_base64)"
    by code_simp
  have 2: "fst (convert (sound_platform tagging_tool) id1 (wav_convert_request ''opus'')
        empty_world) = res_send ''audio/opus'' (3 # wav_bytes)"
    by code_simp
  have 3: "fst (convert_base64 (sound_platform tagging_tool) id2 (wav_base64_request ''opus'')
          empty_world) =
     res_json 200
       (JObj [(''audio'', JStr (base64_encode (2 # wav_bytes))), (''format'', JStr ''opus''),
              (''size'', JNum 61)])"
    by code_simp
  have 4: "2 # wav_bytes \<noteq> 3 # wav_bytes"
    by simp
  have 5: "fst (convert (sound_platform tagging_tool) id1 (wav_convert_request ''mp3'')
        empty_world) = res_send ''audio/mpeg'' (1 # wav_bytes)"
    by code_simp
  have 6: "fst (convert_base64 (sound_platform tagging_tool) id2 (wav_base64_request ''mp3'')
          empty_world) =
     res_json 200
       (JObj [(''audio'', JStr (base64_encode (1 # wav_bytes))), (''format'', JStr ''mp3''),
              (''size'', JNum 61)])"
    by code_simp
  from 1 2 3 4 5 6 base64_roundtrip [of "2 # wav_bytes"] base64_roundtrip [of "1 # wav_bytes"]
  show ?thesis
    by (intro conjI) assumption+
qed

end
